theory Spec2Isabelle
  imports Complex_Main "HOL-Library.Sublist"
begin

section \<open>Python values and built-ins used by application.py\<close>

text \<open>
  A Python string is a list of Unicode code points, lone surrogates included. \<open>lit\<close> turns
  a literal of the program into such a string.
\<close>

type_synonym pystr = "nat list"

definition lit :: "string \<Rightarrow> pystr" where
  "lit s = map of_char s"

text \<open>
  The string methods below are Python's \<open>str.isspace\<close>, \<open>str.strip\<close>, \<open>str.splitlines\<close>,
  \<open>in\<close>, \<open>str.find\<close> and \<open>str.split(sep, 1)\<close>.
\<close>

definition is_space :: "nat \<Rightarrow> bool" where
  "is_space c =
     ((9 \<le> c \<and> c \<le> 13) \<or> (28 \<le> c \<and> c \<le> 32) \<or> c = 0x85 \<or> c = 0xA0 \<or> c = 0x1680 \<or>
      (0x2000 \<le> c \<and> c \<le> 0x200A) \<or> c = 0x2028 \<or> c = 0x2029 \<or> c = 0x202F \<or> c = 0x205F \<or>
      c = 0x3000)"

definition strip :: "pystr \<Rightarrow> pystr" where
  "strip s = rev (dropWhile is_space (rev (dropWhile is_space s)))"

definition is_linebreak :: "nat \<Rightarrow> bool" where
  "is_linebreak c =
     ((10 \<le> c \<and> c \<le> 13) \<or> (28 \<le> c \<and> c \<le> 30) \<or> c = 0x85 \<or> c = 0x2028 \<or> c = 0x2029)"

text \<open>
  \<open>splitlines_from cur s\<close>: \<open>cur\<close> is the current line, reversed. A carriage return
  followed by a line feed is one line boundary; a final line boundary opens no empty line.
\<close>

fun splitlines_from :: "pystr \<Rightarrow> pystr \<Rightarrow> pystr list" where
  "splitlines_from cur [] = (if cur = [] then [] else [rev cur])"
| "splitlines_from cur (c # cs) =
     (if c = 13 \<and> cs \<noteq> [] \<and> hd cs = 10 then rev cur # splitlines_from [] (tl cs)
      else if is_linebreak c then rev cur # splitlines_from [] cs
      else splitlines_from (c # cur) cs)"

definition splitlines :: "pystr \<Rightarrow> pystr list" where
  "splitlines s = splitlines_from [] s"

text \<open>\<open>find_sub sub s\<close> is \<open>s.find(sub)\<close>: the least index where \<open>sub\<close> starts, if any.\<close>

fun find_sub :: "pystr \<Rightarrow> pystr \<Rightarrow> nat option" where
  "find_sub sub [] = (if sub = [] then Some 0 else None)"
| "find_sub sub (c # cs) =
     (if prefix sub (c # cs) then Some 0
      else case find_sub sub cs of None \<Rightarrow> None | Some i \<Rightarrow> Some (Suc i))"

definition contains :: "pystr \<Rightarrow> pystr \<Rightarrow> bool" where
  \<comment> \<open>\<open>sub in s\<close>\<close>
  "contains sub s = (find_sub sub s \<noteq> None)"

definition split1 :: "pystr \<Rightarrow> pystr \<Rightarrow> pystr list" where
  \<comment> \<open>\<open>s.split(sep, 1)\<close> for a non-empty separator\<close>
  "split1 sep s =
     (case find_sub sep s of
        None \<Rightarrow> [s]
      | Some i \<Rightarrow> [take i s, drop (i + length sep) s])"

text \<open>\<open>str(n)\<close> for an integer: decimal digits, with a minus sign when negative.\<close>

definition digit_char :: "nat \<Rightarrow> nat" where
  "digit_char d = 48 + d"

fun str_nat :: "nat \<Rightarrow> pystr" where
  "str_nat n = (if n < 10 then [digit_char n] else str_nat (n div 10) @ [digit_char (n mod 10)])"

declare str_nat.simps [simp del]

definition str_int :: "int \<Rightarrow> pystr" where
  "str_int i = (if i < 0 then 45 # str_nat (nat (- i)) else str_nat (nat i))"

text \<open>
  \<open>int(s)\<close> in base 10. Leading and trailing whitespace is skipped: the ASCII whitespace
  9 to 13 and 32, and the Unicode whitespace from 127 on (not the code points 28 to 31).
  Then comes an optional sign \<open>+\<close> or \<open>-\<close>, then decimal digits with single underscores
  allowed between digits. A decimal digit is any of the Unicode decimal digits, which come
  in runs of ten from zero to nine; \<open>decimal_starts\<close> lists the zero of each run (Unicode
  14, as in Python 3.11). More than \<open>max_str_digits\<close> digits raise ValueError, as does
  every other string: the result \<open>None\<close>.
\<close>

definition is_int_space :: "nat \<Rightarrow> bool" where
  "is_int_space c = ((9 \<le> c \<and> c \<le> 13) \<or> c = 32 \<or> (127 \<le> c \<and> is_space c))"

definition decimal_starts :: "nat list" where
  "decimal_starts =
     [48, 1632, 1776, 1984, 2406, 2534, 2662, 2790, 2918, 3046, 3174, 3302, 3430, 3558, 3664,
      3792, 3872, 4160, 4240, 6112, 6160, 6470, 6608, 6784, 6800, 6992, 7088, 7232, 7248,
      42528, 43216, 43264, 43472, 43504, 43600, 44016, 65296, 66720, 68912, 69734, 69872,
      69942, 70096, 70384, 70736, 70864, 71248, 71360, 71472, 71904, 72016, 72784, 73040,
      73120, 92768, 92864, 93008, 120782, 120792, 120802, 120812, 120822, 123200, 123632,
      125264, 130032]"

definition decimal_value :: "nat \<Rightarrow> nat option" where
  "decimal_value c =
     (case List.find (\<lambda>z. z \<le> c \<and> c < z + 10) decimal_starts of
        None \<Rightarrow> None
      | Some z \<Rightarrow> Some (c - z))"

definition is_digit :: "nat \<Rightarrow> bool" where
  "is_digit c = (decimal_value c \<noteq> None)"

definition max_str_digits :: nat where
  "max_str_digits = 4300"

fun digits_ok :: "pystr \<Rightarrow> bool" where
  "digits_ok [] = False"
| "digits_ok [c] = is_digit c"
| "digits_ok (c # d # cs) =
     (if is_digit c then digits_ok (d # cs)
      else c = 95 \<and> is_digit d \<and> digits_ok (d # cs))"

definition digits_value :: "pystr \<Rightarrow> nat" where
  "digits_value ds =
     foldl (\<lambda>acc c. 10 * acc + (case decimal_value c of None \<Rightarrow> 0 | Some d \<Rightarrow> d)) 0 ds"

definition py_int :: "pystr \<Rightarrow> int option" where
  "py_int s =
     (let t = rev (dropWhile is_int_space (rev (dropWhile is_int_space s)));
          neg = (t \<noteq> [] \<and> hd t = 45);
          body = (if t \<noteq> [] \<and> (hd t = 45 \<or> hd t = 43) then tl t else t);
          ds = filter is_digit body
      in if body \<noteq> [] \<and> is_digit (hd body) \<and> digits_ok body \<and> length ds \<le> max_str_digits
         then Some (if neg then - int (digits_value ds) else int (digits_value ds))
         else None)"

text \<open>
  Text can be encoded as UTF-8 when it holds no surrogate code point. Under the error
  handler \<open>surrogateescape\<close> the surrogates from DC80 to DCFF can be encoded too.
\<close>

definition is_surrogate :: "nat \<Rightarrow> bool" where
  "is_surrogate c = (0xD800 \<le> c \<and> c \<le> 0xDFFF)"

definition utf8_ok :: "pystr \<Rightarrow> bool" where
  "utf8_ok s = list_all (\<lambda>c. \<not> is_surrogate c) s"

datatype errors_handler = Strict | SurrogateEscape

definition encode_ok :: "errors_handler \<Rightarrow> pystr \<Rightarrow> bool" where
  "encode_ok h s =
     list_all (\<lambda>c. \<not> is_surrogate c \<or> (h = SurrogateEscape \<and> 0xDC80 \<le> c \<and> c \<le> 0xDCFF)) s"

subsection \<open>Values read from JSON\<close>

text \<open>
  A float is false in a boolean context exactly when it is zero; \<open>json.load\<close> also
  accepts the literals NaN, Infinity and -Infinity.
\<close>

datatype pyfloat = Finite real | PosInf | NegInf | NaN

text \<open>
  The Python value \<open>json.load\<close> returns. A dict is the list of its items in insertion
  order; its keys are distinct (for a repeated key of a JSON object \<open>json.load\<close> keeps one
  item).
\<close>

datatype pyval =
    PNone
  | PBool bool
  | PInt int
  | PFloat pyfloat
  | PStr pystr
  | PList "pyval list"
  | PDict "(pystr \<times> pyval) list"

type_synonym pydict = "(pystr \<times> pyval) list"

fun truthy :: "pyval \<Rightarrow> bool" where
  "truthy PNone = False"
| "truthy (PBool b) = b"
| "truthy (PInt i) = (i \<noteq> 0)"
| "truthy (PFloat f) = (case f of Finite r \<Rightarrow> r \<noteq> 0 | _ \<Rightarrow> True)"
| "truthy (PStr s) = (s \<noteq> [])"
| "truthy (PList xs) = (xs \<noteq> [])"
| "truthy (PDict kvs) = (kvs \<noteq> [])"

definition py_or :: "pyval \<Rightarrow> pyval \<Rightarrow> pyval" where
  \<comment> \<open>\<open>a or b\<close>\<close>
  "py_or a b = (if truthy a then a else b)"

definition get :: "pydict \<Rightarrow> pystr \<Rightarrow> pyval" where
  \<comment> \<open>\<open>d.get(k)\<close>\<close>
  "get d k = (case map_of d k of None \<Rightarrow> PNone | Some v \<Rightarrow> v)"

definition get_default :: "pydict \<Rightarrow> pystr \<Rightarrow> pyval \<Rightarrow> pyval" where
  \<comment> \<open>\<open>d.get(k, dflt)\<close>\<close>
  "get_default d k dflt = (case map_of d k of None \<Rightarrow> dflt | Some v \<Rightarrow> v)"

text \<open>
  \<open>str(v)\<close>: a string is returned as it is. For every other value \<open>str\<close> is Python's
  built-in text of the value, which is no part of this program: the parameter \<open>repr\<close>.
\<close>

definition py_str :: "(pyval \<Rightarrow> pystr) \<Rightarrow> pyval \<Rightarrow> pystr" where
  "py_str repr v = (case v of PStr s \<Rightarrow> s | _ \<Rightarrow> repr v)"

text \<open>
  Python's \<open>str\<close> on None, booleans and integers, to instantiate \<open>repr\<close> at inputs that
  hold no float, list or dict.
\<close>

definition repr_scalar :: "pyval \<Rightarrow> pystr" where
  "repr_scalar v =
     (case v of
        PNone \<Rightarrow> lit ''None''
      | PBool b \<Rightarrow> (if b then lit ''True'' else lit ''False'')
      | PInt i \<Rightarrow> str_int i
      | _ \<Rightarrow> [])"

text \<open>
  \<open>str.lower\<close> maps a whole string (it is not a map over the characters: a capital sigma
  becomes one of two letters by its position in a word) and is no part of this program:
  the functions that call it take it as the parameter \<open>lower\<close>. \<open>lower_latin1\<close> is
  \<open>str.lower\<close> on text whose code points are all below 256, to instantiate \<open>lower\<close> at
  such inputs.
\<close>

definition lower_latin1 :: "pystr \<Rightarrow> pystr" where
  "lower_latin1 s =
     map (\<lambda>c. if (65 \<le> c \<and> c \<le> 90) \<or> (192 \<le> c \<and> c \<le> 222 \<and> c \<noteq> 215) then c + 32 else c) s"

text \<open>
  The text \<open>json.dump\<close> writes for a value holds the strings of the value: the keys of its
  dicts and its string values.
\<close>

fun strings_of :: "pyval \<Rightarrow> pystr list" where
  "strings_of (PStr s) = [s]"
| "strings_of (PList xs) = concat (map strings_of xs)"
| "strings_of (PDict kvs) = concat (map (\<lambda>kv. fst kv # strings_of (snd kv)) kvs)"
| "strings_of _ = []"

datatype exn = OSError | ValueError | TypeError | AttributeError

section \<open>The world outside the program\<close>

text \<open>
  The backing file songs.json holds a text that \<open>json.load\<close> parses to a value
  (\<open>Json v\<close>) or rejects (\<open>Malformed\<close>). Opening the file for writing or for reading can
  fail with OSError; a failed open leaves the file as it was. The standard output is the
  text written so far; it encodes UTF-8 under the error handler \<open>stdout_errors\<close>.
\<close>

datatype content = Json pyval | Malformed

datatype dialog =
    ShowError pystr pystr exn
  | ShowWarning pystr pystr
  | ShowInfo pystr pystr

record world =
  backing_file :: "content option"
  can_write :: bool
  can_read :: bool
  dialogs :: "dialog list"
  stdout :: pystr
  stdout_errors :: errors_handler

definition messagebox :: "dialog \<Rightarrow> world \<Rightarrow> world" where
  "messagebox d w = w\<lparr>dialogs := dialogs w @ [d]\<rparr>"

text \<open>
  \<open>print(s)\<close> writes \<open>s\<close> and a line feed. Text that the standard output cannot encode
  raises UnicodeEncodeError, a ValueError, and nothing of \<open>s\<close> is written.
\<close>

definition print :: "pystr \<Rightarrow> world \<Rightarrow> (exn + unit) \<times> world" where
  "print s w =
     (if encode_ok (stdout_errors w) s then (Inr (), w\<lparr>stdout := stdout w @ s @ [10]\<rparr>)
      else (Inl ValueError, w))"

definition SONGS_FILE :: pystr where
  "SONGS_FILE = lit ''songs.json''"

text \<open>
  \<open>with open(SONGS_FILE, "w", encoding="utf-8") as f: json.dump(v, f, ensure_ascii=False)\<close>.
  The open truncates the file. \<open>json.dump\<close> writes the text piece by piece: when a string
  of the value cannot be encoded as UTF-8 the write raises UnicodeEncodeError, a
  ValueError, and the file is left with the beginning of the text, which does not parse.
  Otherwise the file holds a text that parses back to \<open>v\<close>.
\<close>

definition json_dump :: "pyval \<Rightarrow> world \<Rightarrow> (exn + unit) \<times> world" where
  "json_dump v w =
     (if \<not> can_write w then (Inl OSError, w)
      else if list_all utf8_ok (strings_of v) then (Inr (), w\<lparr>backing_file := Some (Json v)\<rparr>)
      else (Inl ValueError, w\<lparr>backing_file := Some Malformed\<rparr>))"

definition json_load :: "world \<Rightarrow> exn + pyval" where
  \<comment> \<open>\<open>with open(SONGS_FILE, "r", encoding="utf-8") as f: json.load(f)\<close>\<close>
  "json_load w =
     (if \<not> can_read w then Inl OSError
      else case backing_file w of
             None \<Rightarrow> Inl OSError
           | Some Malformed \<Rightarrow> Inl ValueError
           | Some (Json v) \<Rightarrow> Inr v)"

section \<open>Storage adapter\<close>

definition song :: "pystr \<Rightarrow> pystr \<Rightarrow> pydict" where
  \<comment> \<open>\<open>{"title": t, "number": n}\<close>\<close>
  "song t n = [(lit ''title'', PStr t), (lit ''number'', PStr n)]"

definition normalize_item :: "(pyval \<Rightarrow> pystr) \<Rightarrow> pyval \<Rightarrow> pydict option" where
  "normalize_item repr item =
     (case item of
        PDict d \<Rightarrow>
          (let title = py_or (py_or (get d (lit ''title'')) (get d (lit ''name''))) (PStr []);
               number = py_or (py_or (get d (lit ''number'')) (get d (lit ''num''))) (PStr [])
           in Some (song (py_str repr title) (py_str repr number)))
      | PStr s \<Rightarrow> Some (song s [])
      | _ \<Rightarrow> None)"

fun normalize_items :: "(pyval \<Rightarrow> pystr) \<Rightarrow> pyval list \<Rightarrow> pydict list" where
  "normalize_items repr [] = []"
| "normalize_items repr (item # items) =
     (case normalize_item repr item of
        Some s \<Rightarrow> s # normalize_items repr items
      | None \<Rightarrow> normalize_items repr items)"

definition load_try :: "(pyval \<Rightarrow> pystr) \<Rightarrow> world \<Rightarrow> exn + pydict list" where
  \<comment> \<open>the body of the \<open>try\<close> of \<open>load_songs\<close>\<close>
  "load_try repr w =
     (case json_load w of
        Inl e \<Rightarrow> Inl e
      | Inr data \<Rightarrow>
          (case data of
             PList items \<Rightarrow> Inr (normalize_items repr items)
           | _ \<Rightarrow> Inr []))"

definition load_songs :: "(pyval \<Rightarrow> pystr) \<Rightarrow> world \<Rightarrow> (exn + pydict list) \<times> world" where
  "load_songs repr w =
     (if backing_file w = None then
        (case json_dump (PList []) w of
           (Inl e, w') \<Rightarrow> (Inl e, w')
         | (Inr _, w') \<Rightarrow> (Inr [], w'))
      else
        (case load_try repr w of
           Inl e \<Rightarrow>
             (Inr [], messagebox (ShowError (lit ''Error'') (lit ''Failed to load songs.json'') e) w)
         | Inr normalized \<Rightarrow> (Inr normalized, w)))"

definition save_songs :: "pydict list \<Rightarrow> world \<Rightarrow> (exn + unit) \<times> world" where
  "save_songs ss w =
     (case json_dump (PList (map PDict ss)) w of
        (Inl e, w') \<Rightarrow>
          (Inr (), messagebox (ShowError (lit ''Error'') (lit ''Failed to save songs.json'') e) w')
      | (Inr _, w') \<Rightarrow> (Inr (), w'))"

definition is_song :: "pydict \<Rightarrow> bool" where
  \<comment> \<open>a mapping with exactly the fields title and number, both strings\<close>
  "is_song d =
     (case d of
        [(k1, PStr t), (k2, PStr n)] \<Rightarrow> k1 = lit ''title'' \<and> k2 = lit ''number''
      | _ \<Rightarrow> False)"

section \<open>Catalog editor\<close>

definition AddEditDialog_apply :: "pystr \<Rightarrow> pystr \<Rightarrow> world \<Rightarrow> pydict option \<times> world" where
  \<comment> \<open>\<open>title_var\<close> and \<open>num_var\<close> are the texts of the two entry fields; the value is \<open>self.result\<close>\<close>
  "AddEditDialog_apply title_var num_var w =
     (let title = strip title_var; number = strip num_var
      in if title = [] then
           (None, messagebox (ShowWarning (lit ''Validation'') (lit ''Title cannot be empty'')) w)
         else (Some (song title number), w))"

text \<open>
  The state of \<open>SongApp\<close> that the handlers read and write. The list box and the total
  label only display \<open>filtered\<close> and are left out, and with them \<open>_refresh_list\<close>.
\<close>

record app =
  songs :: "pydict list"
  filtered :: "pydict list"
  search_var :: pystr

definition str_lower :: "(pystr \<Rightarrow> pystr) \<Rightarrow> pyval \<Rightarrow> exn + pystr" where
  \<comment> \<open>\<open>v.lower()\<close>: only a string has the method\<close>
  "str_lower lower v = (case v of PStr s \<Rightarrow> Inr (lower s) | _ \<Rightarrow> Inl AttributeError)"

definition matches :: "(pystr \<Rightarrow> pystr) \<Rightarrow> pystr \<Rightarrow> pydict \<Rightarrow> exn + bool" where
  \<comment> \<open>\<open>q in s.get('title','').lower() or q in s.get('number','').lower()\<close>\<close>
  "matches lower q s =
     (case str_lower lower (get_default s (lit ''title'') (PStr [])) of
        Inl e \<Rightarrow> Inl e
      | Inr t \<Rightarrow>
          if contains q t then Inr True
          else (case str_lower lower (get_default s (lit ''number'') (PStr [])) of
                  Inl e \<Rightarrow> Inl e
                | Inr n \<Rightarrow> Inr (contains q n)))"

fun filter_songs :: "(pystr \<Rightarrow> pystr) \<Rightarrow> pystr \<Rightarrow> pydict list \<Rightarrow> exn + pydict list" where
  "filter_songs lower q [] = Inr []"
| "filter_songs lower q (s # ss) =
     (case matches lower q s of
        Inl e \<Rightarrow> Inl e
      | Inr b \<Rightarrow>
          (case filter_songs lower q ss of
             Inl e \<Rightarrow> Inl e
           | Inr r \<Rightarrow> Inr (if b then s # r else r)))"

definition on_search :: "(pystr \<Rightarrow> pystr) \<Rightarrow> app \<Rightarrow> (exn + unit) \<times> app" where
  "on_search lower a =
     (let q = strip (lower (search_var a))
      in if q = [] then (Inr (), a\<lparr>filtered := songs a\<rparr>)
         else (case filter_songs lower q (songs a) of
                 Inl e \<Rightarrow> (Inl e, a)
               | Inr r \<Rightarrow> (Inr (), a\<lparr>filtered := r\<rparr>)))"

definition auto_save :: "app \<Rightarrow> world \<Rightarrow> world" where
  \<comment> \<open>an exception of \<open>save_songs\<close> is swallowed\<close>
  "auto_save a w = snd (save_songs (songs a) w)"

definition on_add ::
  "(pystr \<Rightarrow> pystr) \<Rightarrow> (pystr \<times> pystr) option \<Rightarrow> app \<Rightarrow> world \<Rightarrow> (exn + unit) \<times> app \<times> world" where
  \<comment> \<open>\<open>dlg\<close>: the texts of the entry form when it is confirmed, \<open>None\<close> when it is cancelled\<close>
  "on_add lower dlg a w =
     (case dlg of
        None \<Rightarrow> (Inr (), a, w)
      | Some (title_var, num_var) \<Rightarrow>
          (case AddEditDialog_apply title_var num_var w of
             (None, w1) \<Rightarrow> (Inr (), a, w1)
           | (Some result, w1) \<Rightarrow>
               (case on_search lower (a\<lparr>songs := songs a @ [result]\<rparr>) of
                  (Inl e, a1) \<Rightarrow> (Inl e, a1, w1)
                | (Inr _, a1) \<Rightarrow> (Inr (), a1, auto_save a1 w1))))"

fun import_lines :: "pystr list \<Rightarrow> pydict list \<Rightarrow> exn + pydict list" where
  "import_lines [] new = Inr new"
| "import_lines (l # ls) new =
     (let line = strip l
      in if line = [] then import_lines ls new
         else if contains (lit '' - '') line then
           (case split1 (lit '' - '') line of
              [title, num] \<Rightarrow> import_lines ls (new @ [song (strip title) (strip num)])
            | _ \<Rightarrow> Inl ValueError)
         else import_lines ls (new @ [song line []]))"

definition on_import ::
  "(pystr \<Rightarrow> pystr) \<Rightarrow> pystr option \<Rightarrow> app \<Rightarrow> world \<Rightarrow> (exn + unit) \<times> app \<times> world" where
  \<comment> \<open>\<open>text\<close>: what \<open>askstring\<close> returns, \<open>None\<close> when the dialog is cancelled\<close>
  "on_import lower text a w =
     (case text of
        None \<Rightarrow> (Inr (), a, w)
      | Some t \<Rightarrow>
          if t = [] then (Inr (), a, w)
          else (case import_lines (splitlines t) [] of
                  Inl e \<Rightarrow> (Inl e, a, w)
                | Inr new \<Rightarrow>
                    (case on_search lower (a\<lparr>songs := songs a @ new\<rparr>) of
                       (Inl e, a1) \<Rightarrow> (Inl e, a1, w)
                     | (Inr _, a1) \<Rightarrow>
                         (Inr (), a1,
                          messagebox
                            (ShowInfo (lit ''Import'')
                               (lit ''Imported '' @ str_nat (length new) @ lit '' songs''))
                            (auto_save a1 w)))))"

section \<open>Batch interface\<close>

definition usage :: pystr where
  "usage = lit ''Church Song App - CLI'' @ [10] @ lit ''Usage:'' @ [10]
     @ lit ''  --list         list songs'' @ [10]
     @ lit ''  --add '' @ [39] @ lit ''Title'' @ [39] @ lit '' [Number]   add a song'' @ [10]
     @ lit ''  --remove N     remove by index (use --list to see indexes)''"

definition list_line :: "(pyval \<Rightarrow> pystr) \<Rightarrow> nat \<Rightarrow> pydict \<Rightarrow> exn + pystr" where
  \<comment> \<open>\<open>f"{i}: {s.get('title')} {('- ' + s.get('number')) if s.get('number') else ''}"\<close>\<close>
  "list_line repr i s =
     (if truthy (get s (lit ''number'')) then
        (case get s (lit ''number'') of
           PStr n \<Rightarrow>
             Inr (str_nat i @ lit '': '' @ py_str repr (get s (lit ''title'')) @ lit '' ''
                  @ (lit ''- '' @ n))
         | _ \<Rightarrow> Inl TypeError)
      else Inr (str_nat i @ lit '': '' @ py_str repr (get s (lit ''title'')) @ lit '' '' @ []))"

fun list_songs :: "(pyval \<Rightarrow> pystr) \<Rightarrow> nat \<Rightarrow> pydict list \<Rightarrow> world \<Rightarrow> (exn + unit) \<times> world" where
  "list_songs repr i [] w = (Inr (), w)"
| "list_songs repr i (s # ss) w =
     (case list_line repr i s of
        Inl e \<Rightarrow> (Inl e, w)
      | Inr l \<Rightarrow>
          (case print l w of
             (Inl e, w1) \<Rightarrow> (Inl e, w1)
           | (Inr _, w1) \<Rightarrow> list_songs repr (Suc i) ss w1))"

definition pop :: "nat \<Rightarrow> 'a list \<Rightarrow> 'a list" where
  \<comment> \<open>the list after \<open>xs.pop(i)\<close>, for \<open>i\<close> below the length\<close>
  "pop i xs = take i xs @ drop (Suc i) xs"

definition cli_remove_try ::
  "(pyval \<Rightarrow> pystr) \<Rightarrow> pystr \<Rightarrow> pydict list \<Rightarrow> world \<Rightarrow> (exn + unit) \<times> world" where
  \<comment> \<open>the body of the \<open>try\<close> of the remove command\<close>
  "cli_remove_try repr arg ss w =
     (case py_int arg of
        None \<Rightarrow> (Inl ValueError, w)
      | Some idx \<Rightarrow>
          if 0 \<le> idx \<and> idx < int (length ss) then
            (let removed = ss ! nat idx
             in case save_songs (pop (nat idx) ss) w of
                  (Inl e, w1) \<Rightarrow> (Inl e, w1)
                | (Inr _, w1) \<Rightarrow>
                    print (lit ''Removed: '' @ py_str repr (get removed (lit ''title''))) w1)
          else print (lit ''Index out of range'') w)"

definition cli_remove ::
  "(pyval \<Rightarrow> pystr) \<Rightarrow> pystr \<Rightarrow> pydict list \<Rightarrow> world \<Rightarrow> (exn + unit) \<times> world" where
  \<comment> \<open>the \<open>try\<close> with its handler for ValueError\<close>
  "cli_remove repr arg ss w =
     (case cli_remove_try repr arg ss w of
        (Inl e, w1) \<Rightarrow> if e = ValueError then print (lit ''Invalid index'') w1 else (Inl e, w1)
      | (Inr _, w1) \<Rightarrow> (Inr (), w1))"

definition run_cli :: "(pyval \<Rightarrow> pystr) \<Rightarrow> pystr list \<Rightarrow> world \<Rightarrow> (exn + unit) \<times> world" where
  \<comment> \<open>\<open>args\<close> is \<open>sys.argv[2:]\<close>\<close>
  "run_cli repr args w =
     (case load_songs repr w of
        (Inl e, w1) \<Rightarrow> (Inl e, w1)
      | (Inr ss, w1) \<Rightarrow>
          if args = [] then print usage w1
          else if args ! 0 = lit ''--list'' then list_songs repr 0 ss w1
          else if args ! 0 = lit ''--add'' \<and> length args \<ge> 2 then
            (let title = args ! 1;
                 number = (if length args \<ge> 3 then args ! 2 else [])
             in case save_songs (ss @ [song title number]) w1 of
                  (Inl e, w2) \<Rightarrow> (Inl e, w2)
                | (Inr _, w2) \<Rightarrow> print (lit ''Added: '' @ title) w2)
          else if args ! 0 = lit ''--remove'' \<and> length args = 2 then cli_remove repr (args ! 1) ss w1
          else print (lit ''Unknown CLI command'') w1)"

section \<open>The statements of the specification, as functions\<close>

definition title_of :: "pydict \<Rightarrow> pystr" where
  "title_of s = (case get s (lit ''title'') of PStr t \<Rightarrow> t | _ \<Rightarrow> [])"

definition number_of :: "pydict \<Rightarrow> pystr" where
  "number_of s = (case get s (lit ''number'') of PStr n \<Rightarrow> n | _ \<Rightarrow> [])"

definition recognized :: "pyval \<Rightarrow> bool" where
  \<comment> \<open>a list entry that is a mapping or a string\<close>
  "recognized item = (case item of PDict _ \<Rightarrow> True | PStr _ \<Rightarrow> True | _ \<Rightarrow> False)"

text \<open>
  Two readings of "the field \<open>k1\<close>, falling back to \<open>k2\<close>, defaulting to the empty string".
  \<open>stated_field\<close> falls back when a field is absent. \<open>field_or\<close> falls back when a field is
  absent or its value is false in a boolean context (null, false, zero, an empty string, list
  or object).
\<close>

definition stated_field :: "pydict \<Rightarrow> pystr \<Rightarrow> pystr \<Rightarrow> pyval" where
  "stated_field d k1 k2 =
     (case map_of d k1 of
        Some v \<Rightarrow> v
      | None \<Rightarrow> (case map_of d k2 of Some v' \<Rightarrow> v' | None \<Rightarrow> PStr []))"

definition stated_normalize_item :: "(pyval \<Rightarrow> pystr) \<Rightarrow> pyval \<Rightarrow> pydict option" where
  "stated_normalize_item repr item =
     (case item of
        PDict d \<Rightarrow> Some (song (py_str repr (stated_field d (lit ''title'') (lit ''name'')))
                             (py_str repr (stated_field d (lit ''number'') (lit ''num''))))
      | PStr s \<Rightarrow> Some (song s [])
      | _ \<Rightarrow> None)"

definition field_or :: "pydict \<Rightarrow> pystr \<Rightarrow> pystr \<Rightarrow> pyval" where
  "field_or d k1 k2 =
     (case map_of d k1 of
        Some v \<Rightarrow> if truthy v then v
                  else (case map_of d k2 of
                          Some v' \<Rightarrow> if truthy v' then v' else PStr []
                        | None \<Rightarrow> PStr [])
      | None \<Rightarrow> (case map_of d k2 of
                   Some v' \<Rightarrow> if truthy v' then v' else PStr []
                 | None \<Rightarrow> PStr []))"

definition spec_normalize_item :: "(pyval \<Rightarrow> pystr) \<Rightarrow> pyval \<Rightarrow> pydict option" where
  "spec_normalize_item repr item =
     (case item of
        PDict d \<Rightarrow> Some (song (py_str repr (field_or d (lit ''title'') (lit ''name'')))
                             (py_str repr (field_or d (lit ''number'') (lit ''num''))))
      | PStr s \<Rightarrow> Some (song s [])
      | _ \<Rightarrow> None)"

text \<open>A record whose title and number can be written to the UTF-8 backing file.\<close>

definition song_encodable :: "pydict \<Rightarrow> bool" where
  "song_encodable s = (utf8_ok (title_of s) \<and> utf8_ok (number_of s))"




definition one_line :: "pystr \<Rightarrow> bool" where
  "one_line s = list_all (\<lambda>c. c \<noteq> 10 \<and> \<not> is_surrogate c) s"


text \<open>
  The view of a catalog under a lowercased query \<open>q\<close>: the records whose lowercased title
  or number contains \<open>q\<close>, in catalog order.
\<close>

definition search_view :: "(pystr \<Rightarrow> pystr) \<Rightarrow> pystr \<Rightarrow> pydict list \<Rightarrow> pydict list" where
  "search_view lower q ss =
     filter (\<lambda>s. sublist q (lower (title_of s)) \<or> sublist q (lower (number_of s))) ss"

text \<open>
  \<open>first_index sep s\<close> is the least position at which \<open>sep\<close> occurs in \<open>s\<close>. An import line
  is parsed at the first separator: \<open>spec_import_line\<close> looks for the separator in the
  trimmed line, \<open>stated_import_line\<close> in the line as it is given.
\<close>

definition first_index :: "pystr \<Rightarrow> pystr \<Rightarrow> nat option" where
  "first_index sep s = List.find (\<lambda>i. take (length sep) (drop i s) = sep) [0..<Suc (length s)]"

definition spec_import_line :: "pystr \<Rightarrow> pydict option" where
  "spec_import_line l =
     (let t = strip l
      in if t = [] then None
         else (case first_index (lit '' - '') t of
                 Some i \<Rightarrow> Some (song (strip (take i t)) (strip (drop (i + 3) t)))
               | None \<Rightarrow> Some (song t [])))"

definition stated_import_line :: "pystr \<Rightarrow> pydict option" where
  "stated_import_line l =
     (if strip l = [] then None
      else (case first_index (lit '' - '') l of
              Some i \<Rightarrow> Some (song (strip (take i l)) (strip (drop (i + 3) l)))
            | None \<Rightarrow> Some (song (strip l) [])))"

text \<open>Records, catalogs and worlds for the examples.\<close>

definition fresh_world :: world where
  "fresh_world =
     \<lparr>backing_file = None, can_write = True, can_read = True, dialogs = [], stdout = [],
      stdout_errors = Strict\<rparr>"

definition amazing_grace :: pydict where
  "amazing_grace = song (lit ''Amazing Grace'') (lit ''12'')"

definition how_great :: pydict where
  "how_great = song (lit ''How Great'') []"

definition rock_of_ages :: pydict where
  "rock_of_ages = song (lit ''Rock of Ages'') (lit ''7'')"

definition surrogate_song :: pydict where
  \<comment> \<open>a title that is the lone surrogate D800, as \<open>json.load\<close> reads it from an escape\<close>
  "surrogate_song = song [0xD800] []"



definition example_app :: app where
  "example_app = \<lparr>songs = [amazing_grace, how_great], filtered = [], search_var = lit ''grace ''\<rparr>"

definition two_line_text :: pystr where
  \<comment> \<open>an import text of two lines\<close>
  "two_line_text = lit ''Holy Holy Holy - 100'' @ [10] @ lit ''Just As I Am''"

definition blank_app :: app where
  "blank_app = \<lparr>songs = [], filtered = [], search_var = []\<rparr>"

section \<open>Strings: properties\<close>

lemma lit_eq_iff [simp]: "lit a = lit b \<longleftrightarrow> a = b"
  by (simp add: lit_def inj_of_char)

lemma lit_Nil [simp]: "lit [] = []"
  by (simp add: lit_def)

lemma lit_eq_Nil [simp]: "lit s = [] \<longleftrightarrow> s = []"
  by (simp add: lit_def)

lemma not_surrogate_lit: "c \<in> set (lit s) \<Longrightarrow> c < 256"
  by (auto simp: lit_def)

lemma utf8_ok_lit [simp]: "utf8_ok (lit s)"
  by (auto simp: utf8_ok_def is_surrogate_def list_all_iff dest!: not_surrogate_lit)

lemma utf8_ok_Nil [simp]: "utf8_ok []"
  by (simp add: utf8_ok_def)

lemma utf8_ok_append [simp]: "utf8_ok (a @ b) \<longleftrightarrow> utf8_ok a \<and> utf8_ok b"
  by (simp add: utf8_ok_def)

lemma encode_ok_utf8: "utf8_ok s \<Longrightarrow> encode_ok h s"
  by (auto simp: utf8_ok_def encode_ok_def list_all_iff)

lemma str_nat_small: "n < 10 \<Longrightarrow> str_nat n = [48 + n]"
  by (simp add: str_nat.simps digit_char_def)


section \<open>Storage adapter: properties\<close>

lemma is_song_song: "is_song (song t n)"
  by (simp add: is_song_def song_def)

lemma is_song_cases: "is_song d \<Longrightarrow> \<exists>t n. d = song t n"
  by (auto simp: is_song_def song_def split: list.splits prod.splits pyval.splits)

lemma normalize_item_is_song: "normalize_item repr item = Some s \<Longrightarrow> is_song s"
  by (auto simp: normalize_item_def Let_def is_song_song split: pyval.splits)

lemma normalize_all_songs: "list_all is_song (normalize_items repr items)"
  by (induction items) (auto split: option.splits dest: normalize_item_is_song)

lemma get_song:
  "get (song t n) (lit ''title'') = PStr t" "get (song t n) (lit ''number'') = PStr n"
  "get (song t n) (lit ''name'') = PNone" "get (song t n) (lit ''num'') = PNone"
  by (simp_all add: get_def song_def)

lemma title_of_song: "title_of (song t n) = t" and number_of_song: "number_of (song t n) = n"
  by (simp_all add: title_of_def number_of_def get_song)

lemma normalize_item_song: "normalize_item repr (PDict (song t n)) = Some (song t n)"
  by (simp add: normalize_item_def get_song py_or_def py_str_def)

lemma normalize_songs: "list_all is_song ss \<Longrightarrow> normalize_items repr (map PDict ss) = ss"
proof (induction ss)
  case Nil
  then show ?case by simp
next
  case (Cons s ss)
  from Cons.prems have "is_song s" by simp
  then obtain t n where "s = song t n" using is_song_cases by blast
  with Cons show ?case by (simp add: normalize_item_song)
qed

lemma normalize_item_None: "normalize_item repr item = None \<longleftrightarrow> \<not> recognized item"
  by (simp add: normalize_item_def recognized_def Let_def split: pyval.splits)

lemma normalize_map_filter:
  "normalize_items repr items = map (the \<circ> normalize_item repr) (filter recognized items)"
proof (induction items)
  case Nil
  show ?case by simp
next
  case (Cons item items)
  show ?case
  proof (cases "normalize_item repr item")
    case None
    then have "\<not> recognized item" using normalize_item_None [of repr item] by simp
    with None Cons show ?thesis by simp
  next
    case (Some s)
    then have "recognized item" using normalize_item_None [of repr item] by simp
    with Some Cons show ?thesis by simp
  qed
qed

lemma py_or_field: "py_or (py_or (get d k1) (get d k2)) (PStr []) = field_or d k1 k2"
  by (simp add: py_or_def get_def field_or_def split: option.splits)

lemma normalize_item_spec: "normalize_item repr item = spec_normalize_item repr item"
  by (simp add: normalize_item_def spec_normalize_item_def py_or_field split: pyval.splits)

lemma normalize_items_map_filter:
  "normalize_items repr items = List.map_filter (spec_normalize_item repr) items"
  by (induction items) (simp_all add: List.map_filter_simps normalize_item_spec split: option.splits)

lemma load_present:
  "can_read w \<Longrightarrow> backing_file w = Some (Json data) \<Longrightarrow>
   load_songs repr w = (Inr (case data of PList items \<Rightarrow> normalize_items repr items | _ \<Rightarrow> []), w)"
  by (simp add: load_songs_def load_try_def json_load_def split: pyval.splits)

lemma load_malformed:
  "can_read w \<Longrightarrow> backing_file w = Some Malformed \<Longrightarrow>
   load_songs repr w =
     (Inr [], messagebox (ShowError (lit ''Error'') (lit ''Failed to load songs.json'') ValueError) w)"
  by (simp add: load_songs_def load_try_def json_load_def)



lemma load_songs_present_no_raise:
  "backing_file w \<noteq> None \<Longrightarrow> \<exists>ss. fst (load_songs repr w) = Inr ss"
  by (auto simp: load_songs_def split: sum.splits)

lemma save_songs_ok: "fst (save_songs ss w) = Inr ()"
  by (simp add: save_songs_def json_dump_def)

lemma strings_of_song:
  "list_all utf8_ok (strings_of (PDict (song t n))) \<longleftrightarrow> song_encodable (song t n)"
  by (simp add: song_def song_encodable_def title_of_def number_of_def get_def)

lemma strings_of_songs:
  "list_all is_song ss \<Longrightarrow>
   list_all utf8_ok (strings_of (PList (map PDict ss))) \<longleftrightarrow> list_all song_encodable ss"
proof (induction ss)
  case Nil
  show ?case by simp
next
  case (Cons s ss)
  from Cons.prems have "is_song s" by simp
  then obtain t n where "s = song t n" using is_song_cases by blast
  with Cons strings_of_song [of t n] show ?case by simp
qed

lemma save_songs_writable:
  "can_write w \<Longrightarrow> list_all is_song ss \<Longrightarrow> list_all song_encodable ss \<Longrightarrow>
   save_songs ss w = (Inr (), w\<lparr>backing_file := Some (Json (PList (map PDict ss)))\<rparr>)"
  using strings_of_songs [of ss] by (simp add: save_songs_def json_dump_def)

lemma save_songs_unwritable:
  "\<not> can_write w \<Longrightarrow>
   save_songs ss w =
     (Inr (), messagebox (ShowError (lit ''Error'') (lit ''Failed to save songs.json'') OSError) w)"
  by (simp add: save_songs_def json_dump_def)

lemma save_songs_unencodable:
  "can_write w \<Longrightarrow> list_all is_song ss \<Longrightarrow> \<not> list_all song_encodable ss \<Longrightarrow>
   save_songs ss w =
     (Inr (), messagebox (ShowError (lit ''Error'') (lit ''Failed to save songs.json'') ValueError)
                (w\<lparr>backing_file := Some Malformed\<rparr>))"
  using strings_of_songs [of ss] by (simp add: save_songs_def json_dump_def)

text \<open>
  Claim C1, as stated, at a catalog whose one title is a lone surrogate (a string that
  \<open>json.load\<close> reads from an escape): \<open>save_songs\<close> cannot encode it, reports the error and
  leaves a file that does not parse, and \<open>load_songs\<close> returns the empty catalog.
\<close>

theorem save_surrogate_counterexample:
  "is_song surrogate_song \<and> can_write fresh_world \<and> can_read fresh_world \<and>
   save_songs [surrogate_song] fresh_world =
     (Inr (), fresh_world\<lparr>backing_file := Some Malformed,
        dialogs := [ShowError (lit ''Error'') (lit ''Failed to save songs.json'') ValueError]\<rparr>) \<and>
   fst (load_songs repr_scalar (snd (save_songs [surrogate_song] fresh_world))) = Inr []"
  by (simp add: surrogate_song_def is_song_def fresh_world_def save_songs_def json_dump_def
      song_def utf8_ok_def is_surrogate_def messagebox_def load_songs_def load_try_def
      json_load_def)

text \<open>
  Claim C1, amended. For a catalog whose records are mappings with exactly the string
  fields title and number, holding no surrogate code point, when the file can be written and
  read, \<open>save_songs\<close> writes the catalog and \<open>load_songs\<close> on the file it wrote returns the
  same records in the same order.
\<close>

theorem save_then_load:
  assumes "list_all is_song ss" and "list_all song_encodable ss"
    and "can_write w" and "can_read w"
  shows "save_songs ss w = (Inr (), w\<lparr>backing_file := Some (Json (PList (map PDict ss)))\<rparr>) \<and>
         load_songs repr (w\<lparr>backing_file := Some (Json (PList (map PDict ss)))\<rparr>) =
           (Inr ss, w\<lparr>backing_file := Some (Json (PList (map PDict ss)))\<rparr>)"
proof -
  let ?w1 = "w\<lparr>backing_file := Some (Json (PList (map PDict ss)))\<rparr>"
  have s: "save_songs ss w = (Inr (), ?w1)"
    using assms(3) assms(1) assms(2) by (rule save_songs_writable)
  have "load_songs repr ?w1 = (Inr (normalize_items repr (map PDict ss)), ?w1)"
    using assms(4) by (simp add: load_present)
  with s assms(1) show ?thesis by (simp add: normalize_songs)
qed

lemma example_songs:
  "is_song amazing_grace" "is_song how_great" "is_song rock_of_ages"
  "song_encodable amazing_grace" "song_encodable how_great" "song_encodable rock_of_ages"
  by (simp_all add: amazing_grace_def how_great_def rock_of_ages_def is_song_song
      song_encodable_def title_of_song number_of_song)

theorem save_then_load_witness:
  "list_all is_song [amazing_grace, how_great] \<and>
   list_all song_encodable [amazing_grace, how_great] \<and>
   can_write fresh_world \<and> can_read fresh_world \<and>
   save_songs [amazing_grace, how_great] fresh_world =
     (Inr (), fresh_world\<lparr>backing_file :=
        Some (Json (PList [PDict amazing_grace, PDict how_great]))\<rparr>) \<and>
   load_songs repr_scalar (fresh_world\<lparr>backing_file :=
        Some (Json (PList [PDict amazing_grace, PDict how_great]))\<rparr>) =
     (Inr [amazing_grace, how_great],
      fresh_world\<lparr>backing_file := Some (Json (PList [PDict amazing_grace, PDict how_great]))\<rparr>)"
  using save_then_load [of "[amazing_grace, how_great]" fresh_world repr_scalar]
  by (simp add: example_songs) (simp add: fresh_world_def)

text \<open>
  Claim C2, as stated, read with a fallback on absent fields: the entry
  \<open>{"title": "Intro", "number": 0}\<close> would get the number \<open>"0"\<close>. \<open>load_songs\<close> gives it the
  empty number, since zero is false in a boolean context.
\<close>

theorem load_falsy_field_counterexample:
  "fst (load_songs repr_scalar
     (fresh_world\<lparr>backing_file :=
        Some (Json (PList [PDict [(lit ''title'', PStr (lit ''Intro'')), (lit ''number'', PInt 0)]]))\<rparr>))
     = Inr [song (lit ''Intro'') []] \<and>
   stated_normalize_item repr_scalar
       (PDict [(lit ''title'', PStr (lit ''Intro'')), (lit ''number'', PInt 0)])
     = Some (song (lit ''Intro'') (lit ''0'')) \<and>
   song (lit ''Intro'') [] \<noteq> song (lit ''Intro'') (lit ''0'')"
  by (simp add: load_songs_def load_try_def json_load_def fresh_world_def normalize_item_def
      stated_normalize_item_def stated_field_def get_def py_or_def py_str_def repr_scalar_def
      str_int_def str_nat_small song_def) (simp add: lit_def)

text \<open>
  Claim C2, amended. For a readable backing file, \<open>load_songs\<close> turns each mapping entry
  of a JSON list into the record whose title is the \<open>title\<close> field when that field is present
  and not false in a boolean context, else the \<open>name\<close> field under the same condition, else
  the empty string, and whose number comes from \<open>number\<close> and \<open>num\<close> in the same way, both
  coerced to strings; each string entry becomes a record with that title and the empty
  number; a top-level value that is not a list gives the empty catalog.
\<close>

theorem load_normalizes:
  assumes "can_read w" and "backing_file w = Some (Json data)"
  shows "load_songs repr w =
     (Inr (case data of
             PList items \<Rightarrow> List.map_filter (spec_normalize_item repr) items
           | _ \<Rightarrow> []), w)"
  using assms by (simp add: load_present normalize_items_map_filter split: pyval.splits)

theorem load_normalizes_witness:
  "can_read (fresh_world\<lparr>backing_file := Some (Json (PList
       [PDict [(lit ''name'', PStr (lit ''Amazing Grace'')), (lit ''num'', PStr (lit ''12''))],
        PStr (lit ''Rock of Ages'')]))\<rparr>) \<and>
   load_songs repr_scalar (fresh_world\<lparr>backing_file := Some (Json (PList
       [PDict [(lit ''name'', PStr (lit ''Amazing Grace'')), (lit ''num'', PStr (lit ''12''))],
        PStr (lit ''Rock of Ages'')]))\<rparr>) =
   (Inr [song (lit ''Amazing Grace'') (lit ''12''), song (lit ''Rock of Ages'') []],
    fresh_world\<lparr>backing_file := Some (Json (PList
       [PDict [(lit ''name'', PStr (lit ''Amazing Grace'')), (lit ''num'', PStr (lit ''12''))],
        PStr (lit ''Rock of Ages'')]))\<rparr>)"
  using load_normalizes [of "fresh_world\<lparr>backing_file := Some (Json (PList
       [PDict [(lit ''name'', PStr (lit ''Amazing Grace'')), (lit ''num'', PStr (lit ''12''))],
        PStr (lit ''Rock of Ages'')]))\<rparr>"
       "PList [PDict [(lit ''name'', PStr (lit ''Amazing Grace'')), (lit ''num'', PStr (lit ''12''))],
        PStr (lit ''Rock of Ages'')]"
       repr_scalar]
  by (simp add: fresh_world_def List.map_filter_simps spec_normalize_item_def field_or_def py_str_def)

text \<open>
  Claim C7. When the backing file is absent and can be created, \<open>load_songs\<close> creates it
  holding the JSON text of the empty list and returns the empty catalog.
\<close>

theorem load_creates_missing_file:
  assumes "backing_file w = None" and "can_write w"
  shows "load_songs repr w = (Inr [], w\<lparr>backing_file := Some (Json (PList []))\<rparr>)"
  using assms by (simp add: load_songs_def json_dump_def)

theorem load_creates_missing_file_witness:
  "backing_file fresh_world = None \<and> can_write fresh_world \<and>
   load_songs repr_scalar fresh_world = (Inr [], fresh_world\<lparr>backing_file := Some (Json (PList []))\<rparr>)"
  using load_creates_missing_file [of fresh_world repr_scalar]
  by (simp add: fresh_world_def)

text \<open>
  Claim C8 at the input where it fails: the backing file is absent and cannot be created.
  The write that creates the file is outside the \<open>try\<close> of \<open>load_songs\<close>, so the OSError
  leaves \<open>load_songs\<close>.
\<close>

theorem load_raises_when_file_cannot_be_created:
  "load_songs repr_scalar (fresh_world\<lparr>can_write := False\<rparr>) =
     (Inl OSError, fresh_world\<lparr>can_write := False\<rparr>)"
  by (simp add: load_songs_def json_dump_def fresh_world_def)

text \<open>
  Claim C10. For a readable backing file whose top-level value is a list, every record that
  \<open>load_songs\<close> returns is a mapping with exactly the fields title and number, both
  strings; the result is the normalized recognized entries (mappings and strings) in their
  order in the file, the other entries being dropped without a report.
\<close>

theorem load_records_wellformed:
  assumes "can_read w" and "backing_file w = Some (Json (PList items))"
  shows "\<exists>ss. load_songs repr w = (Inr ss, w) \<and> list_all is_song ss \<and>
              ss = map (the \<circ> normalize_item repr) (filter recognized items)"
  using assms normalize_all_songs [of repr items]
  by (simp add: load_present normalize_map_filter)

theorem load_records_wellformed_witness:
  "can_read (fresh_world\<lparr>backing_file := Some (Json (PList
       [PInt 3, PDict [(lit ''title'', PInt 7)], PNone, PStr (lit ''Rock of Ages''), PList []]))\<rparr>) \<and>
   load_songs repr_scalar (fresh_world\<lparr>backing_file := Some (Json (PList
       [PInt 3, PDict [(lit ''title'', PInt 7)], PNone, PStr (lit ''Rock of Ages''), PList []]))\<rparr>) =
   (Inr [song (lit ''7'') [], song (lit ''Rock of Ages'') []],
    fresh_world\<lparr>backing_file := Some (Json (PList
       [PInt 3, PDict [(lit ''title'', PInt 7)], PNone, PStr (lit ''Rock of Ages''), PList []]))\<rparr>)"
  using load_records_wellformed [of "fresh_world\<lparr>backing_file := Some (Json (PList
       [PInt 3, PDict [(lit ''title'', PInt 7)], PNone, PStr (lit ''Rock of Ages''), PList []]))\<rparr>"
       "[PInt 3, PDict [(lit ''title'', PInt 7)], PNone, PStr (lit ''Rock of Ages''), PList []]" repr_scalar]
  by (simp add: fresh_world_def recognized_def normalize_item_def get_def py_or_def py_str_def
      repr_scalar_def str_int_def str_nat_small) (simp add: lit_def)

section \<open>Batch interface: properties\<close>

lemma print_ok: "encode_ok (stdout_errors w) s \<Longrightarrow> print s w = (Inr (), w\<lparr>stdout := stdout w @ s @ [10]\<rparr>)"
  by (simp add: print_def)

lemma print_utf8: "utf8_ok s \<Longrightarrow> print s w = (Inr (), w\<lparr>stdout := stdout w @ s @ [10]\<rparr>)"
  by (simp add: print_ok encode_ok_utf8)

lemma one_line_append [simp]: "one_line (a @ b) \<longleftrightarrow> one_line a \<and> one_line b"
  by (simp add: one_line_def)

lemma one_line_Nil [simp]: "one_line []"
  by (simp add: one_line_def)























lemma pop_nth:
  "i < length xs \<Longrightarrow>
   length (pop i xs) = length xs - 1 \<and>
   (\<forall>k<i. pop i xs ! k = xs ! k) \<and>
   (\<forall>k. i \<le> k \<and> k < length xs - 1 \<longrightarrow> pop i xs ! k = xs ! Suc k)"
  by (auto simp: pop_def nth_append min_def)

text \<open>
  Claim C3 at the input where it fails: the batch add command with a title of three
  spaces appends the record and saves it. The entry form rejects the same title.
\<close>

theorem cli_add_blank_title:
  "strip (lit ''   '') = [] \<and>
   run_cli repr_scalar [lit ''--add'', lit ''   ''] (fresh_world\<lparr>backing_file := Some (Json (PList []))\<rparr>) =
     (Inr (), fresh_world\<lparr>backing_file := Some (Json (PList [PDict (song (lit ''   '') [])])),
                          stdout := lit ''Added:    '' @ [10]\<rparr>)"
proof
  show "strip (lit ''   '') = []" by (simp add: strip_def is_space_def lit_def)
  have "lit ''Added: '' @ lit ''   '' = lit ''Added:    ''" by (simp add: lit_def)
  moreover have "save_songs [song (lit ''   '') []] (fresh_world\<lparr>backing_file := Some (Json (PList []))\<rparr>) =
      (Inr (), fresh_world\<lparr>backing_file := Some (Json (PList [PDict (song (lit ''   '') [])]))\<rparr>)"
    by (simp add: save_songs_def json_dump_def fresh_world_def song_def)
  ultimately show "run_cli repr_scalar [lit ''--add'', lit ''   '']
        (fresh_world\<lparr>backing_file := Some (Json (PList []))\<rparr>) =
      (Inr (), fresh_world\<lparr>backing_file := Some (Json (PList [PDict (song (lit ''   '') [])])),
                          stdout := lit ''Added:    '' @ [10]\<rparr>)"
    by (simp add: run_cli_def load_songs_def load_try_def json_load_def Let_def print_utf8)
       (simp add: fresh_world_def)
qed

section \<open>Catalog editor: properties\<close>

lemma apply_rejects_blank:
  "strip title_var = [] \<Longrightarrow>
   AddEditDialog_apply title_var num_var w =
     (None, messagebox (ShowWarning (lit ''Validation'') (lit ''Title cannot be empty'')) w)"
  by (simp add: AddEditDialog_apply_def)

lemma on_add_blank:
  "strip title_var = [] \<Longrightarrow>
   on_add lower (Some (title_var, num_var)) a w =
     (Inr (), a, messagebox (ShowWarning (lit ''Validation'') (lit ''Title cannot be empty'')) w)"
  by (simp add: on_add_def apply_rejects_blank)

lemma contains_Nil: "contains sub [] \<longleftrightarrow> sub = []"
  by (simp add: contains_def)

lemma contains_Cons: "contains sub (c # cs) \<longleftrightarrow> prefix sub (c # cs) \<or> contains sub cs"
  by (simp add: contains_def split: option.splits)

lemma contains_sublist: "contains sub s \<longleftrightarrow> sublist sub s"
  by (induction s) (simp_all add: contains_Nil contains_Cons sublist_Cons_right)

lemma matches_song:
  "matches lower q (song t n) = Inr (contains q (lower t) \<or> contains q (lower n))"
  by (simp add: matches_def get_default_def song_def str_lower_def)

lemma filter_songs_songs:
  "list_all is_song ss \<Longrightarrow>
   filter_songs lower q ss =
     Inr (filter (\<lambda>s. contains q (lower (title_of s)) \<or> contains q (lower (number_of s))) ss)"
proof (induction ss)
  case Nil
  show ?case by simp
next
  case (Cons s ss)
  from Cons.prems have "is_song s" by simp
  then obtain t n where "s = song t n" using is_song_cases by blast
  with Cons show ?case by (simp add: matches_song title_of_song number_of_song)
qed

lemma search_view_Nil: "search_view lower [] ss = ss"
  by (simp add: search_view_def)

lemma on_search_songs:
  assumes "list_all is_song (songs a)"
  shows "on_search lower a =
     (Inr (), a\<lparr>filtered := search_view lower (strip (lower (search_var a))) (songs a)\<rparr>)"
proof (cases "strip (lower (search_var a)) = []")
  case True
  then show ?thesis by (simp add: on_search_def search_view_Nil)
next
  case False
  then show ?thesis
    using assms
    by (simp add: on_search_def filter_songs_songs search_view_def contains_sublist Let_def)
qed

lemma lower_latin1_examples:
  "lower_latin1 (lit ''grace '') = lit ''grace ''"
  "lower_latin1 (lit ''Amazing Grace'') = lit ''amazing grace''"
  "lower_latin1 (lit ''How Great'') = lit ''how great''"
  "lower_latin1 (lit ''12'') = lit ''12''"
  "lower_latin1 [] = []"
  by (simp_all add: lower_latin1_def lit_def)

lemma strip_examples:
  "strip (lit ''grace '') = lit ''grace''"
  by (simp_all add: strip_def is_space_def lit_def)

lemma example_view:
  "search_view lower_latin1 (lit ''grace'') [amazing_grace, how_great] = [amazing_grace]"
  "search_view lower_latin1 (lit ''grace '') [amazing_grace, how_great] = []"
  by (simp_all add: search_view_def amazing_grace_def how_great_def title_of_song number_of_song
      lower_latin1_examples)
     (simp_all add: lit_def sublist_code)

text \<open>
  Claim C4, as stated, at the query \<open>"grace "\<close> (with a trailing space): the search shows
  "Amazing Grace", whose lowercased title does not contain the lowercased query as it was
  typed.
\<close>

theorem search_raw_query_counterexample:
  "on_search lower_latin1 example_app = (Inr (), example_app\<lparr>filtered := [amazing_grace]\<rparr>) \<and>
   search_view lower_latin1 (lower_latin1 (search_var example_app)) (songs example_app) = []"
proof
  have "list_all is_song (songs example_app)" by (simp add: example_app_def example_songs)
  then have "on_search lower_latin1 example_app =
     (Inr (), example_app\<lparr>filtered :=
        search_view lower_latin1 (strip (lower_latin1 (search_var example_app))) (songs example_app)\<rparr>)"
    by (rule on_search_songs)
  then show "on_search lower_latin1 example_app = (Inr (), example_app\<lparr>filtered := [amazing_grace]\<rparr>)"
    by (simp add: example_app_def lower_latin1_examples strip_examples example_view)
  show "search_view lower_latin1 (lower_latin1 (search_var example_app)) (songs example_app) = []"
    by (simp add: example_app_def lower_latin1_examples example_view)
qed

text \<open>
  Claim C4, amended. For every catalog of records and every query, the search sets the
  filtered view to the records, in catalog order, whose lowercased title or lowercased
  number contains the query after it is lowercased and then trimmed (\<open>lower\<close> being
  \<open>str.lower\<close> on the whole string); when that lowercased, trimmed query is empty the
  filtered view is the full catalog.
\<close>

theorem search_filters_by_trimmed_query:
  assumes "list_all is_song (songs a)"
  shows "on_search lower a =
           (Inr (), a\<lparr>filtered := search_view lower (strip (lower (search_var a))) (songs a)\<rparr>) \<and>
         (strip (lower (search_var a)) = [] \<longrightarrow>
            search_view lower (strip (lower (search_var a))) (songs a) = songs a)"
  using assms by (simp add: on_search_songs search_view_Nil)

theorem search_filters_by_trimmed_query_witness:
  "list_all is_song (songs example_app) \<and>
   on_search lower_latin1 example_app = (Inr (), example_app\<lparr>filtered := [amazing_grace]\<rparr>)"
  using search_filters_by_trimmed_query [of example_app lower_latin1]
  by (simp add: example_app_def example_songs lower_latin1_examples strip_examples example_view)

lemma prefix_iff_take: "prefix xs ys \<longleftrightarrow> take (length xs) ys = xs"
  by (metis append_eq_conv_conj prefix_def take_is_prefix)

lemma find_map_Suc: "List.find P (map Suc xs) = map_option Suc (List.find (\<lambda>i. P (Suc i)) xs)"
  by (induction xs) simp_all

lemma find_sub_first_index: "find_sub sep s = first_index sep s"
proof (induction s)
  case Nil
  show ?case by (auto simp: first_index_def)
next
  case (Cons c cs)
  have upt: "[0..<Suc (length (c # cs))] = 0 # map Suc [0..<Suc (length cs)]"
    by (simp add: map_Suc_upt upt_conv_Cons del: upt_Suc)
  show ?case
    unfolding first_index_def upt
    using Cons
    by (simp add: find_map_Suc prefix_iff_take first_index_def split: option.splits del: upt_Suc)
qed

lemma length_sep: "length (lit '' - '') = 3"
  by (simp add: lit_def)

lemma import_lines_spec:
  "import_lines ls new = Inr (new @ List.map_filter spec_import_line ls)"
proof (induction ls arbitrary: new)
  case Nil
  show ?case by (simp add: List.map_filter_simps)
next
  case (Cons l ls)
  show ?case
    by (simp add: Cons List.map_filter_simps spec_import_line_def Let_def contains_def split1_def
        find_sub_first_index length_sep split: option.splits)
qed

lemma spec_import_line_song: "spec_import_line l = Some r \<Longrightarrow> is_song r"
  by (auto simp: spec_import_line_def Let_def is_song_song split: if_splits option.splits)

lemma map_filter_import_songs: "list_all is_song (List.map_filter spec_import_line ls)"
  by (induction ls) (auto simp: List.map_filter_simps spec_import_line_song split: option.splits)

lemma on_import_songs:
  assumes "list_all is_song (songs a)" and "t \<noteq> []"
  shows "on_import lower (Some t) a w =
     (Inr (),
      a\<lparr>songs := songs a @ List.map_filter spec_import_line (splitlines t),
        filtered := search_view lower (strip (lower (search_var a)))
                      (songs a @ List.map_filter spec_import_line (splitlines t))\<rparr>,
      messagebox (ShowInfo (lit ''Import'')
          (lit ''Imported '' @ str_nat (length (List.map_filter spec_import_line (splitlines t)))
             @ lit '' songs''))
        (snd (save_songs (songs a @ List.map_filter spec_import_line (splitlines t)) w)))"
proof -
  let ?new = "List.map_filter spec_import_line (splitlines t)"
  let ?a1 = "a\<lparr>songs := songs a @ ?new\<rparr>"
  have "list_all is_song (songs ?a1)"
    using assms(1) map_filter_import_songs [of "splitlines t"] by simp
  then have "on_search lower ?a1 =
      (Inr (), ?a1\<lparr>filtered := search_view lower (strip (lower (search_var ?a1))) (songs ?a1)\<rparr>)"
    by (rule on_search_songs)
  then show ?thesis
    using assms(2) by (simp add: on_import_def import_lines_spec auto_save_def)
qed

lemma on_import_empty: "on_import lower (Some []) a w = (Inr (), a, w)"
  by (simp add: on_import_def)

lemma example_lines:
  "splitlines two_line_text = [lit ''Holy Holy Holy - 100'', lit ''Just As I Am'']"
  "splitlines (lit ''Song - '') = [lit ''Song - '']"
  "two_line_text \<noteq> []"
  by (simp_all add: two_line_text_def splitlines_def is_linebreak_def lit_def)

lemma example_import_lines:
  "spec_import_line (lit ''Holy Holy Holy - 100'') = Some (song (lit ''Holy Holy Holy'') (lit ''100''))"
  "spec_import_line (lit ''Just As I Am'') = Some (song (lit ''Just As I Am'') [])"
  "spec_import_line (lit ''Song - '') = Some (song (lit ''Song -'') [])"
  "stated_import_line (lit ''Song - '') = Some (song (lit ''Song'') [])"
  by (simp_all add: spec_import_line_def stated_import_line_def Let_def
      find_sub_first_index [symmetric] strip_def is_space_def lit_def)

text \<open>
  Claim C5, as stated, at the line \<open>"Song - "\<close>: the line contains the separator, so the
  claim gives the title "Song"; the import trims the line first and gives the title
  "Song -". At the empty text the import reports nothing.
\<close>

theorem import_raw_separator_counterexample:
  "songs (fst (snd (on_import lower_latin1 (Some (lit ''Song - '')) blank_app fresh_world))) =
     [song (lit ''Song -'') []] \<and>
   List.map_filter stated_import_line (splitlines (lit ''Song - '')) = [song (lit ''Song'') []] \<and>
   on_import lower_latin1 (Some []) blank_app fresh_world = (Inr (), blank_app, fresh_world)"
proof (intro conjI)
  have "list_all is_song (songs blank_app)" by (simp add: blank_app_def)
  moreover have "lit ''Song - '' \<noteq> []" by simp
  ultimately have "on_import lower_latin1 (Some (lit ''Song - '')) blank_app fresh_world =
     (Inr (),
      blank_app\<lparr>songs := songs blank_app @ List.map_filter spec_import_line (splitlines (lit ''Song - '')),
        filtered := search_view lower_latin1 (strip (lower_latin1 (search_var blank_app)))
                      (songs blank_app @ List.map_filter spec_import_line (splitlines (lit ''Song - '')))\<rparr>,
      messagebox (ShowInfo (lit ''Import'')
          (lit ''Imported '' @ str_nat (length (List.map_filter spec_import_line (splitlines (lit ''Song - ''))))
             @ lit '' songs''))
        (snd (save_songs (songs blank_app @ List.map_filter spec_import_line (splitlines (lit ''Song - ''))) fresh_world)))"
    by (rule on_import_songs)
  then show "songs (fst (snd (on_import lower_latin1 (Some (lit ''Song - '')) blank_app fresh_world))) =
     [song (lit ''Song -'') []]"
    by (simp add: example_lines example_import_lines List.map_filter_simps blank_app_def)
  show "List.map_filter stated_import_line (splitlines (lit ''Song - '')) = [song (lit ''Song'') []]"
    by (simp add: example_lines example_import_lines List.map_filter_simps)
  show "on_import lower_latin1 (Some []) blank_app fresh_world = (Inr (), blank_app, fresh_world)"
    by (rule on_import_empty)
qed

text \<open>
  Claim C5, amended. For every non-empty import text, each line is trimmed first; a
  trimmed line that is empty gives no record; one that contains the separator \<open>" - "\<close> is
  split at its first occurrence into a title and a number, both trimmed; any other gives
  a record with the trimmed line as title and the empty number. The records are appended
  to the catalog in line order, the filtered view is recomputed, the catalog is saved and
  the number of records is reported. For the empty import text nothing changes and nothing
  is reported.
\<close>

theorem import_appends_parsed_lines:
  assumes "list_all is_song (songs a)"
  shows "(t \<noteq> [] \<longrightarrow>
          on_import lower (Some t) a w =
            (Inr (),
             a\<lparr>songs := songs a @ List.map_filter spec_import_line (splitlines t),
               filtered := search_view lower (strip (lower (search_var a)))
                             (songs a @ List.map_filter spec_import_line (splitlines t))\<rparr>,
             messagebox (ShowInfo (lit ''Import'')
                 (lit ''Imported '' @ str_nat (length (List.map_filter spec_import_line (splitlines t)))
                    @ lit '' songs''))
               (snd (save_songs (songs a @ List.map_filter spec_import_line (splitlines t)) w)))) \<and>
         on_import lower (Some []) a w = (Inr (), a, w)"
  using assms by (simp add: on_import_songs on_import_empty)

theorem import_appends_parsed_lines_witness:
  "list_all is_song (songs blank_app) \<and> two_line_text \<noteq> [] \<and>
   on_import lower_latin1 (Some two_line_text) blank_app fresh_world =
     (Inr (),
      \<lparr>songs = [song (lit ''Holy Holy Holy'') (lit ''100''), song (lit ''Just As I Am'') []],
       filtered = [song (lit ''Holy Holy Holy'') (lit ''100''), song (lit ''Just As I Am'') []],
       search_var = []\<rparr>,
      fresh_world\<lparr>backing_file :=
          Some (Json (PList [PDict (song (lit ''Holy Holy Holy'') (lit ''100'')),
                             PDict (song (lit ''Just As I Am'') [])])),
        dialogs := [ShowInfo (lit ''Import'') (lit ''Imported 2 songs'')]\<rparr>) \<and>
   on_import lower_latin1 (Some []) blank_app fresh_world = (Inr (), blank_app, fresh_world)"
proof -
  have msg: "lit ''Imported '' @ str_nat (Suc (Suc 0)) @ lit '' songs'' = lit ''Imported 2 songs''"
    by (simp add: str_nat_small lit_def)
  have save: "save_songs [song (lit ''Holy Holy Holy'') (lit ''100''), song (lit ''Just As I Am'') []]
      fresh_world =
    (Inr (), fresh_world\<lparr>backing_file :=
          Some (Json (PList [PDict (song (lit ''Holy Holy Holy'') (lit ''100'')),
                             PDict (song (lit ''Just As I Am'') [])]))\<rparr>)"
    by (simp add: save_songs_def json_dump_def song_def fresh_world_def)
  have new: "List.map_filter spec_import_line (splitlines two_line_text) =
      [song (lit ''Holy Holy Holy'') (lit ''100''), song (lit ''Just As I Am'') []]"
    by (simp add: example_lines example_import_lines List.map_filter_simps)
  have songs: "list_all is_song (songs blank_app)" by (simp add: blank_app_def)
  have view: "strip (lower_latin1 (search_var blank_app)) = []"
    by (simp add: blank_app_def lower_latin1_examples strip_def)
  have empty: "songs blank_app = []" by (simp add: blank_app_def)
  show ?thesis
    using import_appends_parsed_lines [OF songs, of two_line_text lower_latin1 fresh_world]
    by (simp add: songs example_lines(3) new view search_view_Nil empty save msg)
       (simp add: blank_app_def messagebox_def fresh_world_def)
qed

subsection \<open>Titles produced by the entry form and by import\<close>

text \<open>
  A record that the entry form or the import produces has a title that is not empty after
  trimming.
\<close>

lemma strip_Nil_iff: "strip s = [] \<longleftrightarrow> (\<forall>c\<in>set s. is_space c)"
proof
  assume "strip s = []"
  then have "\<forall>c\<in>set (dropWhile is_space s). is_space c" by (simp add: strip_def)
  then have "dropWhile is_space s = []"
    using hd_dropWhile [of is_space s] hd_in_set [of "dropWhile is_space s"] by blast
  then show "\<forall>c\<in>set s. is_space c" by simp
next
  assume "\<forall>c\<in>set s. is_space c"
  then show "strip s = []" by (auto simp: strip_def dest: set_dropWhileD)
qed

lemma strip_hd: assumes "strip s \<noteq> []" shows "\<not> is_space (hd (strip s))"
proof -
  let ?u = "dropWhile is_space s"
  let ?d = "dropWhile is_space (rev ?u)"
  from assms have d: "?d \<noteq> []" by (simp add: strip_def)
  then have u: "?u \<noteq> []" by (metis dropWhile.simps(1) rev_is_Nil_conv)
  have "hd (strip s) = last ?d" using d by (simp add: strip_def hd_rev)
  also have "\<dots> = last (rev ?u)" using d by (metis append.right_neutral last_appendR takeWhile_dropWhile_id)
  also have "\<dots> = hd ?u" using u by (simp add: last_rev)
  finally show ?thesis using u hd_dropWhile [of is_space s] by simp
qed

lemma strip_strip_Nil: "strip (strip s) = [] \<longleftrightarrow> strip s = []"
proof
  assume a: "strip (strip s) = []"
  show "strip s = []"
  proof (rule ccontr)
    assume n: "strip s \<noteq> []"
    then have "hd (strip s) \<in> set (strip s)" by simp
    with a strip_hd [OF n] show False by (simp add: strip_Nil_iff)
  qed
next
  assume e: "strip s = []"
  have "strip [] = []" by (simp add: strip_def)
  with e show "strip (strip s) = []" by simp
qed

lemma apply_title_nonblank:
  "AddEditDialog_apply title_var num_var w = (Some r, w1) \<Longrightarrow> strip (title_of r) \<noteq> []"
  by (auto simp: AddEditDialog_apply_def Let_def title_of_song strip_strip_Nil split: if_splits)

lemma first_index_Some:
  "first_index sep s = Some i \<Longrightarrow> take (length sep) (drop i s) = sep"
  by (auto simp: first_index_def find_Some_iff simp del: upt_Suc)

lemma import_line_title_nonblank:
  assumes "spec_import_line l = Some r"
  shows "strip (title_of r) \<noteq> []"
proof -
  let ?t = "strip l"
  from assms have t: "?t \<noteq> []" by (auto simp: spec_import_line_def Let_def split: if_splits)
  show ?thesis
  proof (cases "first_index (lit '' - '') ?t")
    case None
    with assms t have "r = song ?t []" by (simp add: spec_import_line_def Let_def)
    with t show ?thesis by (simp add: title_of_song strip_strip_Nil)
  next
    case (Some i)
    with assms t have r: "r = song (strip (take i ?t)) (strip (drop (i + 3) ?t))"
      by (simp add: spec_import_line_def Let_def)
    have occ: "take 3 (drop i ?t) = lit '' - ''" using first_index_Some [OF Some] by (simp add: length_sep)
    have "i \<noteq> 0"
    proof
      assume "i = 0"
      with occ have "take 3 ?t = lit '' - ''" by simp
      then have "hd ?t = 32" using t by (cases ?t) (simp_all add: numeral_3_eq_3 lit_def)
      with strip_hd [OF t] show False by (simp add: is_space_def)
    qed
    then have "hd ?t \<in> set (take i ?t)" using t by (cases ?t; cases i) simp_all
    with strip_hd [OF t] have "strip (take i ?t) \<noteq> []" by (auto simp: strip_Nil_iff)
    with r show ?thesis by (simp add: title_of_song strip_strip_Nil)
  qed
qed

lemma import_titles_nonblank:
  "r \<in> set (List.map_filter spec_import_line ls) \<Longrightarrow> strip (title_of r) \<noteq> []"
  by (auto simp: List.map_filter_def dest: import_line_title_nonblank)

end
